theory Spec2Isabelle
  imports Main
begin

section \<open>Values shared by both packages\<close>

text \<open>
  Go's \<^verbatim>\<open>error\<close> is an interface value; \<^verbatim>\<open>nil\<close> is the absent error, so an error
  result is an \<open>error option\<close>.  The only thing the code asks of an error is
  \<^verbatim>\<open>kerr.IsNotFound(err)\<close> (k8s.io/apimachinery/pkg/api/errors): true exactly for an API
  status error whose reason is NotFound, false for every other error and for \<^verbatim>\<open>nil\<close>.
\<close>

datatype StatusReason =
    StatusReasonUnknown
  | StatusReasonNotFound
  | StatusReasonAlreadyExists
  | StatusReasonConflict
  | StatusReasonForbidden

datatype error =
    StatusError StatusReason string
  | OtherError string

fun IsNotFound :: "error option \<Rightarrow> bool" where
  "IsNotFound None = False"
| "IsNotFound (Some (StatusError r msg)) = (r = StatusReasonNotFound)"
| "IsNotFound (Some (OtherError msg)) = False"


section \<open>admission/api/handler.go\<close>

text \<open>
  \<^verbatim>\<open>interface{}\<close> values are \<open>'a option\<close> (\<open>None\<close> is \<^verbatim>\<open>nil\<close>).  The three fields are Go
  closures: they may have effects of their own, so a callback is a function on a state
  \<open>'st\<close> that it may read and change; a \<^verbatim>\<open>nil\<close> field is \<open>None\<close>.
\<close>

record ('a, 'st) ResourceHandlerFuncs =
  AddFunc :: "('a option \<Rightarrow> 'st \<Rightarrow> ('a option \<times> error option) \<times> 'st) option"
  UpdateFunc :: "('a option \<Rightarrow> 'a option \<Rightarrow> 'st \<Rightarrow> ('a option \<times> error option) \<times> 'st) option"
  DeleteFunc :: "('a option \<Rightarrow> 'st \<Rightarrow> error option \<times> 'st) option"

definition OnAdd ::
  "('a, 'st) ResourceHandlerFuncs \<Rightarrow> 'a option \<Rightarrow> 'st \<Rightarrow> ('a option \<times> error option) \<times> 'st" where
  "OnAdd r obj st =
     (case AddFunc r of
        Some f \<Rightarrow> f obj st
      | None \<Rightarrow> ((None, None), st))"

definition OnUpdate ::
  "('a, 'st) ResourceHandlerFuncs \<Rightarrow> 'a option \<Rightarrow> 'a option \<Rightarrow> 'st
     \<Rightarrow> ('a option \<times> error option) \<times> 'st" where
  "OnUpdate r oldObj newObj st =
     (case UpdateFunc r of
        Some f \<Rightarrow> f oldObj newObj st
      | None \<Rightarrow> ((None, None), st))"

definition OnDelete ::
  "('a, 'st) ResourceHandlerFuncs \<Rightarrow> 'a option \<Rightarrow> 'st \<Rightarrow> error option \<times> 'st" where
  "OnDelete r obj st =
     (case DeleteFunc r of
        Some f \<Rightarrow> f obj st
      | None \<Rightarrow> (None, st))"

text \<open>
  A callback that records every call it receives, with its arguments, in the state: the
  state after a handler method then shows how often the field was called and with what.
\<close>

datatype event = Added "nat option" | Updated "nat option" "nat option" | Deleted "nat option"

definition recordAdd :: "nat option \<Rightarrow> event list \<Rightarrow> (nat option \<times> error option) \<times> event list" where
  "recordAdd obj log = ((map_option Suc obj, None), log @ [Added obj])"

definition recordUpdate ::
  "nat option \<Rightarrow> nat option \<Rightarrow> event list \<Rightarrow> (nat option \<times> error option) \<times> event list" where
  "recordUpdate oldObj newObj log =
     ((newObj, Some (OtherError ''rejected'')), log @ [Updated oldObj newObj])"

definition recordDelete :: "nat option \<Rightarrow> event list \<Rightarrow> error option \<times> event list" where
  "recordDelete obj log = (Some (OtherError ''gone''), log @ [Deleted obj])"


section \<open>core/v1/endpoints.go: the data\<close>

text \<open>
  The object types are those of k8s.io/api/core/v1 and k8s.io/apimachinery.  The code
  reads \<^verbatim>\<open>Namespace\<close> and \<^verbatim>\<open>Name\<close> of the metadata and writes \<^verbatim>\<open>Kind\<close> and
  \<^verbatim>\<open>APIVersion\<close>; the remaining metadata is the field \<open>Rest\<close> of a type \<open>'om\<close> the
  code never looks into, and the subsets are a slice of \<open>'sub\<close> (the zero value of a
  slice is the empty list).
\<close>

record TypeMeta =
  Kind :: string
  APIVersion :: string

record 'om ObjectMeta =
  Name :: string
  Namespace :: string
  Rest :: 'om

record ('om, 'sub) Endpoints =
  TypeMeta :: TypeMeta
  ObjectMeta :: "'om ObjectMeta"
  Subsets :: "'sub list"

text \<open>
  Modelled from the spec: the outcome tag \<^verbatim>\<open>kutil.VerbType\<close> is declared in the root
  package of the repository, which is not among the sources; the spec gives it the three
  values Created, Patched and Unchanged.
\<close>

datatype VerbType = VerbUnchanged | VerbCreated | VerbPatched

text \<open>
  \<^verbatim>\<open>core.SchemeGroupVersion.String()\<close>: the core API group has the empty group name and
  the version \<^verbatim>\<open>v1\<close>, and a group version with an empty group prints as its version.
\<close>

definition SchemeGroupVersion_String :: string where
  "SchemeGroupVersion_String = ''v1''"

datatype PatchType = JSONPatchType | MergePatchType | StrategicMergePatchType


section \<open>Pointers and the store\<close>

text \<open>
  The functions pass \<^verbatim>\<open>*core.Endpoints\<close> around, and the transform may write through
  the pointer it is handed.  The store is the list of the objects allocated so far; an
  address is an index into it, so a new object always gets an address no live pointer
  holds.  A pointer is \<open>None\<close> (\<^verbatim>\<open>nil\<close>) or \<open>Some a\<close>.
\<close>

type_synonym addr = nat
type_synonym ptr = "addr option"
type_synonym ('om, 'sub) store = "('om, 'sub) Endpoints list"

definition deref :: "('om, 'sub) store \<Rightarrow> ptr \<Rightarrow> ('om, 'sub) Endpoints option" where
  "deref h p =
     (case p of
        None \<Rightarrow> None
      | Some a \<Rightarrow> (if a < length h then Some (h ! a) else None))"

definition alloc :: "('om, 'sub) store \<Rightarrow> ('om, 'sub) Endpoints \<Rightarrow> ptr \<times> ('om, 'sub) store" where
  "alloc h e = (Some (length h), h @ [e])"

definition alloc_opt ::
  "('om, 'sub) store \<Rightarrow> ('om, 'sub) Endpoints option \<Rightarrow> ptr \<times> ('om, 'sub) store" where
  "alloc_opt h r = (case r of None \<Rightarrow> (None, h) | Some e \<Rightarrow> alloc h e)"

text \<open>
  The generated \<^verbatim>\<open>(*Endpoints).DeepCopy\<close>: \<^verbatim>\<open>nil\<close> for a \<^verbatim>\<open>nil\<close> receiver, otherwise
  a newly allocated object with the same contents, sharing no memory with the receiver.
\<close>

definition DeepCopy :: "ptr \<Rightarrow> ('om, 'sub) store \<Rightarrow> ptr \<times> ('om, 'sub) store" where
  "DeepCopy p h = alloc_opt h (deref h p)"

text \<open>
  A transform is a Go closure \<^verbatim>\<open>func(*core.Endpoints) *core.Endpoints\<close>: it gets a
  pointer, may read and write the store, and returns a pointer.
\<close>

type_synonym ('om, 'sub) transform = "ptr \<Rightarrow> ('om, 'sub) store \<Rightarrow> ptr \<times> ('om, 'sub) store"


section \<open>The collaborators\<close>

type_synonym bytes = string

text \<open>
  \<^verbatim>\<open>kubernetes.Interface\<close>, as far as \<^verbatim>\<open>c.CoreV1().Endpoints(ns)\<close> is used: three
  requests to the API server, whose state is \<open>'s\<close>.  Each returns Go's pair of an object
  and an error (either may be absent).  A request receives the contents of the object it
  is given and answers with contents; the answer is placed in the store as a new object.
\<close>

record ('om, 'sub, 's) Interface =
  Get :: "string \<Rightarrow> string \<Rightarrow> 's \<Rightarrow> (('om, 'sub) Endpoints option \<times> error option) \<times> 's"
  Create :: "string \<Rightarrow> ('om, 'sub) Endpoints option \<Rightarrow> 's
               \<Rightarrow> (('om, 'sub) Endpoints option \<times> error option) \<times> 's"
  Patch :: "string \<Rightarrow> string \<Rightarrow> PatchType \<Rightarrow> bytes \<Rightarrow> 's
               \<Rightarrow> (('om, 'sub) Endpoints option \<times> error option) \<times> 's"

text \<open>
  \<^verbatim>\<open>json.Marshal\<close> on a \<^verbatim>\<open>*core.Endpoints\<close> (\<open>None\<close> is the \<^verbatim>\<open>nil\<close> pointer) and
  \<^verbatim>\<open>strategicpatch.CreateTwoWayMergePatch\<close> with the schema \<^verbatim>\<open>core.Endpoints{}\<close>; each
  returns bytes and an error.
\<close>

record ('om, 'sub) Codec =
  Marshal :: "('om, 'sub) Endpoints option \<Rightarrow> bytes \<times> error option"
  CreateTwoWayMergePatch :: "bytes \<Rightarrow> bytes \<Rightarrow> bytes \<times> error option"

text \<open>The requests issued to the API server, in order, with their arguments.\<close>

datatype ('om, 'sub) call =
    CallGet string string
  | CallCreate string "('om, 'sub) Endpoints option"
  | CallPatch string string PatchType bytes

record ('om, 'sub, 's) world =
  heap :: "('om, 'sub) store"
  server :: 's
  calls :: "('om, 'sub) call list"

definition client_Get ::
  "('om, 'sub, 's) Interface \<Rightarrow> string \<Rightarrow> string \<Rightarrow> ('om, 'sub, 's) world
     \<Rightarrow> (ptr \<times> error option) \<times> ('om, 'sub, 's) world" where
  "client_Get c ns name w =
     (case Get c ns name (server w) of
        ((res, err), s') \<Rightarrow>
          (case alloc_opt (heap w) res of
             (p, h') \<Rightarrow>
               ((p, err), \<lparr>heap = h', server = s', calls = calls w @ [CallGet ns name]\<rparr>)))"

definition client_Create ::
  "('om, 'sub, 's) Interface \<Rightarrow> string \<Rightarrow> ptr \<Rightarrow> ('om, 'sub, 's) world
     \<Rightarrow> (ptr \<times> error option) \<times> ('om, 'sub, 's) world" where
  "client_Create c ns obj w =
     (case Create c ns (deref (heap w) obj) (server w) of
        ((res, err), s') \<Rightarrow>
          (case alloc_opt (heap w) res of
             (p, h') \<Rightarrow>
               ((p, err),
                \<lparr>heap = h', server = s',
                 calls = calls w @ [CallCreate ns (deref (heap w) obj)]\<rparr>)))"

definition client_Patch ::
  "('om, 'sub, 's) Interface \<Rightarrow> string \<Rightarrow> string \<Rightarrow> PatchType \<Rightarrow> bytes \<Rightarrow> ('om, 'sub, 's) world
     \<Rightarrow> (ptr \<times> error option) \<times> ('om, 'sub, 's) world" where
  "client_Patch c ns name pt data w =
     (case Patch c ns name pt data (server w) of
        ((res, err), s') \<Rightarrow>
          (case alloc_opt (heap w) res of
             (p, h') \<Rightarrow>
               ((p, err),
                \<lparr>heap = h', server = s', calls = calls w @ [CallPatch ns name pt data]\<rparr>)))"


section \<open>core/v1/endpoints.go: the functions\<close>

text \<open>
  A call either returns Go's triple \<^verbatim>\<open>(*core.Endpoints, kutil.VerbType, error)\<close> or
  panics: \<^verbatim>\<open>cur.Namespace\<close> on line 70 dereferences \<^verbatim>\<open>cur\<close>.  The \<^verbatim>\<open>glog\<close> lines
  only write to the log and are left out, but for that dereference.
\<close>

datatype 'r exec = Panic | Return 'r

type_synonym result = "ptr \<times> VerbType \<times> error option"

definition PatchEndpointsObject ::
  "('om, 'sub, 's) Interface \<Rightarrow> ('om, 'sub) Codec \<Rightarrow> ptr \<Rightarrow> ptr \<Rightarrow> ('om, 'sub, 's) world
     \<Rightarrow> result exec \<times> ('om, 'sub, 's) world" where
  "PatchEndpointsObject c k cur mod' w =
     (case Marshal k (deref (heap w) cur) of
        (curJson, Some e) \<Rightarrow> (Return (None, VerbUnchanged, Some e), w)
      | (curJson, None) \<Rightarrow>
     (case Marshal k (deref (heap w) mod') of
        (modJson, Some e) \<Rightarrow> (Return (None, VerbUnchanged, Some e), w)
      | (modJson, None) \<Rightarrow>
     (case CreateTwoWayMergePatch k curJson modJson of
        (patch, Some e) \<Rightarrow> (Return (None, VerbUnchanged, Some e), w)
      | (patch, None) \<Rightarrow>
          if length patch = 0 \<or> patch = ''{}'' then (Return (cur, VerbUnchanged, None), w)
          else
            (case deref (heap w) cur of
               None \<Rightarrow> (Panic, w)
             | Some e \<Rightarrow>
                 (case client_Patch c (Namespace (ObjectMeta e)) (Name (ObjectMeta e))
                         StrategicMergePatchType patch w of
                    ((out, err), w') \<Rightarrow> (Return (out, VerbPatched, err), w'))))))"

definition PatchEndpoints ::
  "('om, 'sub, 's) Interface \<Rightarrow> ('om, 'sub) Codec \<Rightarrow> ptr \<Rightarrow> ('om, 'sub) transform
     \<Rightarrow> ('om, 'sub, 's) world \<Rightarrow> result exec \<times> ('om, 'sub, 's) world" where
  "PatchEndpoints c k cur transform w =
     (case DeepCopy cur (heap w) of
        (copy, h1) \<Rightarrow>
          (case transform copy h1 of
             (mod', h2) \<Rightarrow> PatchEndpointsObject c k cur mod' (w\<lparr>heap := h2\<rparr>)))"

definition newEndpoints :: "'om ObjectMeta \<Rightarrow> ('om, 'sub) Endpoints" where
  "newEndpoints meta =
     \<lparr>TypeMeta = \<lparr>Kind = ''Endpoints'', APIVersion = SchemeGroupVersion_String\<rparr>,
      ObjectMeta = meta,
      Subsets = []\<rparr>"

definition CreateOrPatchEndpoints ::
  "('om, 'sub, 's) Interface \<Rightarrow> ('om, 'sub) Codec \<Rightarrow> 'om ObjectMeta \<Rightarrow> ('om, 'sub) transform
     \<Rightarrow> ('om, 'sub, 's) world \<Rightarrow> result exec \<times> ('om, 'sub, 's) world" where
  "CreateOrPatchEndpoints c k meta transform w =
     (case client_Get c (Namespace meta) (Name meta) w of
        ((cur, err), w1) \<Rightarrow>
          if IsNotFound err then
            (case alloc (heap w1) (newEndpoints meta) of
               (fresh, h1) \<Rightarrow>
                 (case transform fresh h1 of
                    (obj, h2) \<Rightarrow>
                      (case client_Create c (Namespace meta) obj (w1\<lparr>heap := h2\<rparr>) of
                         ((out, err'), w2) \<Rightarrow> (Return (out, VerbCreated, err'), w2))))
          else if err \<noteq> None then (Return (None, VerbUnchanged, err), w1)
          else PatchEndpoints c k cur transform w1)"


section \<open>A test double for the collaborators\<close>

text \<open>
  A small API server in the manner of the fake clientset: the stored objects are an
  association list keyed by namespace and name; \<open>Get\<close> answers NotFound for a missing
  key, \<open>Create\<close> refuses a \<^verbatim>\<open>nil\<close> object and an existing key, and \<open>Patch\<close> replaces
  the subsets by what the patch says.  Its codec writes an object as its subsets, and the
  patch between two documents is \<^verbatim>\<open>{}\<close> when they are equal and the new document
  otherwise.  Both serve as concrete inputs; no property below depends on them.
\<close>

type_synonym obj = "(unit, char) Endpoints"
type_synonym fakeServer = "((string \<times> string) \<times> obj) list"

definition fakeClient :: "(unit, char, fakeServer) Interface" where
  "fakeClient =
     \<lparr>Get = (\<lambda>ns name s.
        (case map_of s (ns, name) of
           Some e \<Rightarrow> ((Some e, None), s)
         | None \<Rightarrow> ((None, Some (StatusError StatusReasonNotFound name)), s))),
      Create = (\<lambda>ns obj s.
        (case obj of
           None \<Rightarrow> ((None, Some (OtherError ''nil object'')), s)
         | Some e \<Rightarrow>
             (case map_of s (ns, Name (ObjectMeta e)) of
                Some x \<Rightarrow> ((None, Some (StatusError StatusReasonAlreadyExists (Name (ObjectMeta e)))), s)
              | None \<Rightarrow> ((Some e, None), ((ns, Name (ObjectMeta e)), e) # s)))),
      Patch = (\<lambda>ns name t data s.
        (case map_of s (ns, name) of
           None \<Rightarrow> ((None, Some (StatusError StatusReasonNotFound name)), s)
         | Some e \<Rightarrow> ((Some (e\<lparr>Subsets := data\<rparr>), None), ((ns, name), e\<lparr>Subsets := data\<rparr>) # s)))\<rparr>"

definition fakeCodec :: "(unit, char) Codec" where
  "fakeCodec =
     \<lparr>Marshal = (\<lambda>p. (case p of None \<Rightarrow> (''null'', None) | Some e \<Rightarrow> (Subsets e, None))),
      CreateTwoWayMergePatch = (\<lambda>a b. (if a = b then ''{}'' else b, None))\<rparr>"

text \<open>A client whose three requests give fixed answers and count the requests served.\<close>

definition stubClient ::
  "obj option \<times> error option \<Rightarrow> obj option \<times> error option \<Rightarrow> obj option \<times> error option
     \<Rightarrow> (unit, char, nat) Interface" where
  "stubClient g cr pa =
     \<lparr>Get = (\<lambda>ns name s. (g, Suc s)),
      Create = (\<lambda>ns obj s. (cr, Suc s)),
      Patch = (\<lambda>ns name t data s. (pa, Suc s))\<rparr>"

definition meta0 :: "unit ObjectMeta" where
  "meta0 = \<lparr>Name = ''ep'', Namespace = ''default'', Rest = ()\<rparr>"

definition obj0 :: obj where
  "obj0 = \<lparr>TypeMeta = \<lparr>Kind = ''Endpoints'', APIVersion = ''v1''\<rparr>, ObjectMeta = meta0, Subsets = ''a''\<rparr>"

definition obj1 :: obj where
  "obj1 = \<lparr>TypeMeta = \<lparr>Kind = ''Endpoints'', APIVersion = ''v1''\<rparr>, ObjectMeta = meta0, Subsets = ''b''\<rparr>"

text \<open>
  Three situations: nothing stored and nothing allocated; \<open>obj0\<close> stored on the server
  and fetched to address 0; and the same with a changed copy \<open>obj1\<close> at address 1.
\<close>

definition world0 :: "(unit, char, fakeServer) world" where
  "world0 = \<lparr>heap = [], server = [], calls = []\<rparr>"

definition world1 :: "(unit, char, fakeServer) world" where
  "world1 = \<lparr>heap = [obj0], server = [((''default'', ''ep''), obj0)], calls = []\<rparr>"

definition world2 :: "(unit, char, fakeServer) world" where
  "world2 = \<lparr>heap = [obj0, obj1], server = [((''default'', ''ep''), obj0)], calls = []\<rparr>"

text \<open>
  Three transforms.  \<open>setSubsets\<close> is the usual one: it writes through the pointer it is
  handed and returns it.  \<open>keep\<close> changes nothing.  \<open>clobber a\<close> is a closure that has
  captured the address \<open>a\<close> and writes there, whatever pointer it is handed:
  \<^verbatim>\<open>func(in *core.Endpoints) *core.Endpoints { captured.Subsets = xs; return in }\<close>.
\<close>

definition write_Subsets :: "addr \<Rightarrow> char list \<Rightarrow> (unit, char) store \<Rightarrow> (unit, char) store" where
  "write_Subsets a xs h = (if a < length h then h[a := (h ! a)\<lparr>Subsets := xs\<rparr>] else h)"

definition setSubsets :: "char list \<Rightarrow> (unit, char) transform" where
  "setSubsets xs p h = (case p of None \<Rightarrow> (None, h) | Some a \<Rightarrow> (Some a, write_Subsets a xs h))"

definition keep :: "(unit, char) transform" where
  "keep p h = (p, h)"

definition clobber :: "addr \<Rightarrow> char list \<Rightarrow> (unit, char) transform" where
  "clobber a xs p h = (p, write_Subsets a xs h)"

text \<open>
  What a transform did in one call, from the store \<open>h\<close> before to the store \<open>h'\<close> after:
  it wrote only through the pointer \<open>p\<close> it was handed, when no object is lost and every
  object at another address is as it was (it may have allocated objects of its own).
\<close>

definition wrote_only_through :: "ptr \<Rightarrow> ('om, 'sub) store \<Rightarrow> ('om, 'sub) store \<Rightarrow> bool" where
  "wrote_only_through p h h' =
     (length h \<le> length h' \<and> list_all (\<lambda>a. Some a = p \<or> h' ! a = h ! a) [0..<length h])"


section \<open>The notification adaptor\<close>

text \<open>
  C7.  When the function field of a method is \<^verbatim>\<open>nil\<close>, the method is a no-op:
  \<open>OnAdd\<close> and \<open>OnUpdate\<close> return \<^verbatim>\<open>(nil, nil)\<close>, \<open>OnDelete\<close> returns \<^verbatim>\<open>nil\<close>, for
  all arguments, and the state any callback could have touched is as it was.
\<close>

theorem ResourceHandlerFuncs_unset_noop:
  "(AddFunc r = None \<longrightarrow> OnAdd r obj st = ((None, None), st)) \<and>
   (UpdateFunc r = None \<longrightarrow> OnUpdate r oldObj newObj st = ((None, None), st)) \<and>
   (DeleteFunc r = None \<longrightarrow> OnDelete r obj st = (None, st))"
  by (simp add: OnAdd_def OnUpdate_def OnDelete_def)

theorem ResourceHandlerFuncs_unset_noop_witness:
  "OnAdd \<lparr>AddFunc = None, UpdateFunc = None, DeleteFunc = None\<rparr> (Some (7::nat)) [Added None]
     = ((None, None), [Added None]) \<and>
   OnUpdate \<lparr>AddFunc = None, UpdateFunc = None, DeleteFunc = None\<rparr> (Some (7::nat)) (Some 8) [Added None]
     = ((None, None), [Added None]) \<and>
   OnDelete \<lparr>AddFunc = None, UpdateFunc = None, DeleteFunc = None\<rparr> (Some (7::nat)) [Added None]
     = (None, [Added None])"
  using ResourceHandlerFuncs_unset_noop
    [of "\<lparr>AddFunc = None, UpdateFunc = None, DeleteFunc = None\<rparr>" "Some 7" "[Added None]" "Some 7" "Some 8"]
  by simp

text \<open>
  C8.  When the function field of a method is set, the method is one call of the field
  on the method's own arguments, and returns the field's result.  The equation is between
  the whole effects: for a callback that changes the state, calling it twice or not at
  all, or with other arguments, would give another state or result, and the equation
  holds for every callback and every state.
\<close>

theorem ResourceHandlerFuncs_set_delegates:
  "(AddFunc r = Some f \<longrightarrow> OnAdd r obj st = f obj st) \<and>
   (UpdateFunc r = Some g \<longrightarrow> OnUpdate r oldObj newObj st = g oldObj newObj st) \<and>
   (DeleteFunc r = Some d \<longrightarrow> OnDelete r obj st = d obj st)"
  by (simp add: OnAdd_def OnUpdate_def OnDelete_def)

theorem ResourceHandlerFuncs_set_delegates_witness:
  "OnAdd \<lparr>AddFunc = Some recordAdd, UpdateFunc = Some recordUpdate, DeleteFunc = Some recordDelete\<rparr>
      (Some 7) [] = ((Some 8, None), [Added (Some 7)]) \<and>
   OnUpdate \<lparr>AddFunc = Some recordAdd, UpdateFunc = Some recordUpdate, DeleteFunc = Some recordDelete\<rparr>
      (Some 7) (Some 9) [] = ((Some 9, Some (OtherError ''rejected'')), [Updated (Some 7) (Some 9)]) \<and>
   OnDelete \<lparr>AddFunc = Some recordAdd, UpdateFunc = Some recordUpdate, DeleteFunc = Some recordDelete\<rparr>
      (Some 7) [] = (Some (OtherError ''gone''), [Deleted (Some 7)])"
  using ResourceHandlerFuncs_set_delegates
    [of "\<lparr>AddFunc = Some recordAdd, UpdateFunc = Some recordUpdate, DeleteFunc = Some recordDelete\<rparr>"
        recordAdd "Some 7" "[]" recordUpdate "Some 7" "Some 9" recordDelete]
  by (simp add: recordAdd_def recordUpdate_def recordDelete_def)


section \<open>Facts about the store and the client\<close>

lemmas fake_defs = fakeClient_def fakeCodec_def stubClient_def meta0_def obj0_def obj1_def
  setSubsets_def keep_def clobber_def write_Subsets_def world0_def world1_def world2_def

lemma deref_alloc_opt: "alloc_opt h r = (p, h') \<Longrightarrow> deref h' p = r"
  by (auto simp: alloc_opt_def alloc_def deref_def split: option.splits)

lemma alloc_opt_extends: "alloc_opt h r = (p, h') \<Longrightarrow> \<exists>xs. h' = h @ xs"
  by (auto simp: alloc_opt_def alloc_def split: option.splits)

lemma deref_append: "deref h p = Some e \<Longrightarrow> deref (h @ xs) p = Some e"
  by (auto simp: deref_def nth_append split: option.splits if_splits)

lemma deref_valid: "deref h p = Some e \<Longrightarrow> \<exists>a. p = Some a \<and> a < length h \<and> h ! a = e"
  by (auto simp: deref_def split: option.splits if_splits)

lemma DeepCopy_present:
  assumes "deref h cur = Some e" and "DeepCopy cur h = (copy, h1)"
  shows "copy = Some (length h) \<and> h1 = h @ [e]"
  using assms by (auto simp: DeepCopy_def alloc_opt_def alloc_def)

lemma client_Get_effect:
  assumes "client_Get c ns name w = ((p, err), w1)"
  shows "\<exists>res. Get c ns name (server w) = ((res, err), server w1) \<and>
           alloc_opt (heap w) res = (p, heap w1) \<and>
           calls w1 = calls w @ [CallGet ns name]"
  using assms by (auto simp: client_Get_def split: prod.splits)

lemma client_Create_effect:
  assumes "Create c ns (deref (heap w) obj) (server w) = ((res, err), s')"
  shows "\<exists>out w'. client_Create c ns obj w = ((out, err), w') \<and>
           alloc_opt (heap w) res = (out, heap w') \<and> server w' = s' \<and>
           calls w' = calls w @ [CallCreate ns (deref (heap w) obj)]"
  using assms by (auto simp: client_Create_def split: prod.splits)

lemma client_Patch_effect:
  assumes "Patch c ns name t data (server w) = ((res, err), s')"
  shows "\<exists>out w'. client_Patch c ns name t data w = ((out, err), w') \<and>
           alloc_opt (heap w) res = (out, heap w') \<and> server w' = s' \<and>
           calls w' = calls w @ [CallPatch ns name t data]"
  using assms by (auto simp: client_Patch_def split: prod.splits)

lemma client_Patch_heap:
  "client_Patch c ns name t data w = (r, w') \<Longrightarrow> \<exists>xs. heap w' = heap w @ xs"
  by (auto simp: client_Patch_def dest: alloc_opt_extends split: prod.splits)


section \<open>The three paths of the helper\<close>

text \<open>
  The create path, lines 32 to 41: after a NotFound fetch the transform runs on a pointer
  to a new object holding the type descriptors and the metadata, the result goes to
  \<open>Create\<close>, and whatever \<open>Create\<close> answers is returned with \<open>VerbCreated\<close>.
\<close>

lemma CreateOrPatchEndpoints_create_path:
  assumes get: "client_Get c (Namespace meta) (Name meta) w = ((cur, err), w1)"
      and nf: "IsNotFound err"
      and tr: "transform (Some (length (heap w1)))
                 (heap w1 @ [\<lparr>TypeMeta = \<lparr>Kind = ''Endpoints'', APIVersion = ''v1''\<rparr>,
                              ObjectMeta = meta, Subsets = []\<rparr>]) = (obj, h2)"
      and cr: "Create c (Namespace meta) (deref h2 obj) (server w1) = ((res, err'), s2)"
  shows "\<exists>out w2.
           CreateOrPatchEndpoints c k meta transform w = (Return (out, VerbCreated, err'), w2) \<and>
           deref (heap w2) out = res \<and>
           server w2 = s2 \<and>
           calls w2 = calls w @ [CallGet (Namespace meta) (Name meta),
                                 CallCreate (Namespace meta) (deref h2 obj)]"
proof -
  from client_Get_effect [OF get]
  have c1: "calls w1 = calls w @ [CallGet (Namespace meta) (Name meta)]" by blast
  let ?w = "w1\<lparr>heap := h2\<rparr>"
  from cr have "Create c (Namespace meta) (deref (heap ?w) obj) (server ?w) = ((res, err'), s2)"
    by simp
  from client_Create_effect [OF this]
  obtain out w2 where
    cc: "client_Create c (Namespace meta) obj ?w = ((out, err'), w2)"
    and al: "alloc_opt (heap ?w) res = (out, heap w2)"
    and sv: "server w2 = s2"
    and cl: "calls w2 = calls ?w @ [CallCreate (Namespace meta) (deref (heap ?w) obj)]"
    by blast
  have "CreateOrPatchEndpoints c k meta transform w = (Return (out, VerbCreated, err'), w2)"
    using get nf tr cc
    by (simp add: CreateOrPatchEndpoints_def alloc_def newEndpoints_def SchemeGroupVersion_String_def)
  moreover have "deref (heap w2) out = res" using al by (rule deref_alloc_opt)
  moreover have "calls w2 = calls w @ [CallGet (Namespace meta) (Name meta),
                                 CallCreate (Namespace meta) (deref h2 obj)]"
    using cl c1 by simp
  ultimately show ?thesis using sv by blast
qed

text \<open>
  The request path of \<open>PatchEndpointsObject\<close>, lines 70 to 72: with a patch that is not
  empty and a \<open>cur\<close> that points to an object, one \<open>Patch\<close> request goes out and its
  answer, object and error alike, is returned with \<open>VerbPatched\<close>.
\<close>

lemma PatchEndpointsObject_patch_path:
  assumes mc: "Marshal k (deref (heap w) cur) = (curJson, None)"
      and mm: "Marshal k (deref (heap w) mod') = (modJson, None)"
      and cp: "CreateTwoWayMergePatch k curJson modJson = (patch, None)"
      and ne: "length patch \<noteq> 0" "patch \<noteq> ''{}''"
      and pr: "deref (heap w) cur = Some e"
      and pa: "Patch c (Namespace (ObjectMeta e)) (Name (ObjectMeta e)) StrategicMergePatchType patch
                 (server w) = ((res, err), s')"
  shows "\<exists>out w'.
           PatchEndpointsObject c k cur mod' w = (Return (out, VerbPatched, err), w') \<and>
           deref (heap w') out = res \<and>
           server w' = s' \<and>
           calls w' = calls w @ [CallPatch (Namespace (ObjectMeta e)) (Name (ObjectMeta e))
                                   StrategicMergePatchType patch]"
proof -
  from client_Patch_effect [OF pa]
  obtain out w' where
    cc: "client_Patch c (Namespace (ObjectMeta e)) (Name (ObjectMeta e)) StrategicMergePatchType patch w
           = ((out, err), w')"
    and al: "alloc_opt (heap w) res = (out, heap w')"
    and sv: "server w' = s'"
    and cl: "calls w' = calls w @ [CallPatch (Namespace (ObjectMeta e)) (Name (ObjectMeta e))
                                   StrategicMergePatchType patch]"
    by blast
  have "PatchEndpointsObject c k cur mod' w = (Return (out, VerbPatched, err), w')"
    using mc mm cp ne pr cc by (simp add: PatchEndpointsObject_def)
  moreover have "deref (heap w') out = res" using al by (rule deref_alloc_opt)
  ultimately show ?thesis using sv cl by blast
qed

lemma PatchEndpointsObject_empty_path:
  assumes mc: "Marshal k (deref (heap w) cur) = (curJson, None)"
      and mm: "Marshal k (deref (heap w) mod') = (modJson, None)"
      and cp: "CreateTwoWayMergePatch k curJson modJson = (patch, None)"
      and em: "length patch = 0 \<or> patch = ''{}''"
  shows "PatchEndpointsObject c k cur mod' w = (Return (cur, VerbUnchanged, None), w)"
  using assms by (auto simp: PatchEndpointsObject_def)

text \<open>
  With a patch that is not empty and a \<open>cur\<close> that is \<^verbatim>\<open>nil\<close>, line 70 panics on
  \<^verbatim>\<open>cur.Namespace\<close> before any request is made.
\<close>

lemma PatchEndpointsObject_nil_cur_panics:
  assumes mc: "Marshal k (deref (heap w) cur) = (curJson, None)"
      and mm: "Marshal k (deref (heap w) mod') = (modJson, None)"
      and cp: "CreateTwoWayMergePatch k curJson modJson = (patch, None)"
      and ne: "length patch \<noteq> 0" "patch \<noteq> ''{}''"
      and nil: "deref (heap w) cur = None"
  shows "PatchEndpointsObject c k cur mod' w = (Panic, w)"
  using assms by (simp add: PatchEndpointsObject_def)

text \<open>\<open>PatchEndpointsObject\<close> only ever adds to the store: the object a request answers with.\<close>

lemma PatchEndpointsObject_heap:
  "\<exists>xs. heap (snd (PatchEndpointsObject c k cur mod' w)) = heap w @ xs"
  by (auto simp: PatchEndpointsObject_def dest: client_Patch_heap split: prod.splits option.splits)


section \<open>Create or patch\<close>

text \<open>
  C1.  For every identity \<open>meta\<close> and every transform: when the fetch fails with a
  NotFound error, \<open>CreateOrPatchEndpoints\<close> takes the create path.  It allocates a new
  object holding Kind \<^verbatim>\<open>Endpoints\<close>, the core API version \<^verbatim>\<open>v1\<close> and the given
  metadata, applies the transform to a pointer to it, sends the transform's result to
  \<open>Create\<close> in the namespace of the metadata, and returns what \<open>Create\<close> answers with the
  outcome \<open>VerbCreated\<close>.  The fetch and the create are the only two requests made.
\<close>

theorem CreateOrPatchEndpoints_not_found_creates:
  assumes get: "client_Get c (Namespace meta) (Name meta) w = ((cur, err), w1)"
      and nf: "IsNotFound err"
      and tr: "transform (Some (length (heap w1)))
                 (heap w1 @ [\<lparr>TypeMeta = \<lparr>Kind = ''Endpoints'', APIVersion = ''v1''\<rparr>,
                              ObjectMeta = meta, Subsets = []\<rparr>]) = (obj, h2)"
      and cr: "Create c (Namespace meta) (deref h2 obj) (server w1) = ((res, err'), s2)"
  shows "\<exists>out w2.
           CreateOrPatchEndpoints c k meta transform w = (Return (out, VerbCreated, err'), w2) \<and>
           deref (heap w2) out = res \<and>
           server w2 = s2 \<and>
           calls w2 = calls w @ [CallGet (Namespace meta) (Name meta),
                                 CallCreate (Namespace meta) (deref h2 obj)]"
  using CreateOrPatchEndpoints_create_path [where transform = transform, OF get nf tr cr] .

theorem CreateOrPatchEndpoints_not_found_creates_witness:
  "IsNotFound (Some (StatusError StatusReasonNotFound ''ep'')) \<and>
   (\<exists>out w2.
      CreateOrPatchEndpoints fakeClient fakeCodec meta0 (setSubsets ''b'') world0
        = (Return (out, VerbCreated, None), w2) \<and>
      deref (heap w2) out = Some obj1 \<and>
      server w2 = [((''default'', ''ep''), obj1)] \<and>
      calls w2 = [CallGet ''default'' ''ep'', CallCreate ''default'' (Some obj1)])"
proof -
  let ?w1 = "\<lparr>heap = [], server = [], calls = [CallGet ''default'' ''ep'']\<rparr>
               :: (unit, char, fakeServer) world"
  have get: "client_Get fakeClient (Namespace meta0) (Name meta0) world0
               = ((None, Some (StatusError StatusReasonNotFound ''ep'')), ?w1)"
    by (simp add: fake_defs client_Get_def alloc_opt_def)
  have nf: "IsNotFound (Some (StatusError StatusReasonNotFound ''ep''))" by simp
  have tr: "setSubsets ''b'' (Some (length (heap ?w1)))
              (heap ?w1 @ [\<lparr>TypeMeta = \<lparr>Kind = ''Endpoints'', APIVersion = ''v1''\<rparr>,
                            ObjectMeta = meta0, Subsets = []\<rparr>]) = (Some 0, [obj1])"
    by (simp add: fake_defs)
  have cr: "Create fakeClient (Namespace meta0) (deref [obj1] (Some 0)) (server ?w1)
              = ((Some obj1, None), [((''default'', ''ep''), obj1)])"
    by (simp add: fake_defs deref_def)
  show ?thesis
    using nf CreateOrPatchEndpoints_not_found_creates
      [where transform = "setSubsets ''b''" and k = fakeCodec, OF get nf tr cr]
    by (simp add: deref_def meta0_def world0_def)
qed

text \<open>
  C2.  For every identity and every transform: when the fetch fails with an error that
  is not NotFound, \<open>CreateOrPatchEndpoints\<close> returns at once a \<^verbatim>\<open>nil\<close> object, the
  outcome \<open>VerbUnchanged\<close> and that very error.  The world it leaves is the world right
  after the fetch, so the fetch is the only request made and the transform has not run.
\<close>

theorem CreateOrPatchEndpoints_fetch_error:
  assumes get: "client_Get c (Namespace meta) (Name meta) w = ((cur, Some e), w1)"
      and nnf: "\<not> IsNotFound (Some e)"
  shows "CreateOrPatchEndpoints c k meta transform w = (Return (None, VerbUnchanged, Some e), w1) \<and>
         calls w1 = calls w @ [CallGet (Namespace meta) (Name meta)]"
proof -
  from client_Get_effect [OF get]
  have "calls w1 = calls w @ [CallGet (Namespace meta) (Name meta)]" by blast
  then show ?thesis
    using get nnf by (simp add: CreateOrPatchEndpoints_def)
qed

theorem CreateOrPatchEndpoints_fetch_error_witness:
  "\<not> IsNotFound (Some (StatusError StatusReasonForbidden ''denied'')) \<and>
   CreateOrPatchEndpoints
       (stubClient (None, Some (StatusError StatusReasonForbidden ''denied''))
          (Some obj0, None) (Some obj0, None))
       fakeCodec meta0 (setSubsets ''b'') \<lparr>heap = [], server = 0, calls = []\<rparr>
     = (Return (None, VerbUnchanged, Some (StatusError StatusReasonForbidden ''denied'')),
        \<lparr>heap = [], server = 1, calls = [CallGet ''default'' ''ep'']\<rparr>)"
proof -
  let ?c = "stubClient (None, Some (StatusError StatusReasonForbidden ''denied''))
             (Some obj0, None) (Some obj0, None)"
  let ?w = "\<lparr>heap = [], server = 0, calls = []\<rparr> :: (unit, char, nat) world"
  let ?w1 = "\<lparr>heap = [], server = 1, calls = [CallGet ''default'' ''ep'']\<rparr>
               :: (unit, char, nat) world"
  have get: "client_Get ?c (Namespace meta0) (Name meta0) ?w
               = ((None, Some (StatusError StatusReasonForbidden ''denied'')), ?w1)"
    by (simp add: stubClient_def client_Get_def alloc_opt_def meta0_def)
  have nnf: "\<not> IsNotFound (Some (StatusError StatusReasonForbidden ''denied''))" by simp
  show ?thesis
    using nnf CreateOrPatchEndpoints_fetch_error
      [where transform = "setSubsets ''b''" and k = fakeCodec, OF get nnf]
    by simp
qed



text \<open>
  C4.  As stated, the claim does not hold in its last part: the code returns the
  object the server answers with and never compares it with the transformed object, so
  with a server that answers with the stored object as it was, the returned object does
  not reflect the transform.  The counterexample after the theorem runs this.

  What the code gives, in two layers.  When both objects serialise, the patch is
  computed and is not empty, and \<open>cur\<close> points to an object, \<open>PatchEndpointsObject\<close>
  makes one \<open>Patch\<close> request, of type strategic merge patch, carrying the patch computed
  from the original to the transformed object \<open>mod'\<close> and addressed to the namespace and
  name of \<open>cur\<close>; when the request succeeds it returns the outcome \<open>VerbPatched\<close>, no
  error, and a pointer to the very object the server answered with.  The same holds from
  the top: for a fetched object whose transform changes it, \<open>CreateOrPatchEndpoints\<close>
  and \<open>PatchEndpoints\<close> return that result, the fetch and the patch being the only
  requests.  In both layers, when the server answers with the transformed object, the
  transformed object is what is returned.
\<close>

theorem changed_object_is_patched:
  "(Marshal k (deref (heap v) cur') = (curJson', None) \<and>
    Marshal k (deref (heap v) mod'') = (modJson', None) \<and>
    CreateTwoWayMergePatch k curJson' modJson' = (patch', None) \<and>
    length patch' \<noteq> 0 \<and> patch' \<noteq> ''{}'' \<and>
    deref (heap v) cur' = Some e' \<and>
    Patch c (Namespace (ObjectMeta e')) (Name (ObjectMeta e')) StrategicMergePatchType patch'
      (server v) = ((res', None), t')
    \<longrightarrow> (\<exists>out v'.
           PatchEndpointsObject c k cur' mod'' v = (Return (out, VerbPatched, None), v') \<and>
           deref (heap v') out = res' \<and>
           server v' = t' \<and>
           calls v' = calls v @ [CallPatch (Namespace (ObjectMeta e')) (Name (ObjectMeta e'))
                                   StrategicMergePatchType patch'] \<and>
           (res' = deref (heap v) mod'' \<longrightarrow> deref (heap v') out = deref (heap v) mod'')))
   \<and>
   (client_Get c (Namespace meta) (Name meta) w = ((cur, None), w1) \<and>
    DeepCopy cur (heap w1) = (copy, h1) \<and>
    transform copy h1 = (mod', h2) \<and>
    Marshal k (deref h2 cur) = (curJson, None) \<and>
    Marshal k (deref h2 mod') = (modJson, None) \<and>
    CreateTwoWayMergePatch k curJson modJson = (patch, None) \<and>
    length patch \<noteq> 0 \<and> patch \<noteq> ''{}'' \<and>
    deref h2 cur = Some e \<and>
    Patch c (Namespace (ObjectMeta e)) (Name (ObjectMeta e)) StrategicMergePatchType patch
      (server w1) = ((res, None), s')
    \<longrightarrow> (\<exists>out w'.
           PatchEndpoints c k cur transform w1 = (Return (out, VerbPatched, None), w') \<and>
           CreateOrPatchEndpoints c k meta transform w = (Return (out, VerbPatched, None), w') \<and>
           deref (heap w') out = res \<and>
           server w' = s' \<and>
           calls w' = calls w @ [CallGet (Namespace meta) (Name meta),
                                 CallPatch (Namespace (ObjectMeta e)) (Name (ObjectMeta e))
                                   StrategicMergePatchType patch] \<and>
           (res = deref h2 mod' \<longrightarrow> deref (heap w') out = deref h2 mod')))"
proof (intro conjI impI)
  assume a: "Marshal k (deref (heap v) cur') = (curJson', None) \<and>
    Marshal k (deref (heap v) mod'') = (modJson', None) \<and>
    CreateTwoWayMergePatch k curJson' modJson' = (patch', None) \<and>
    length patch' \<noteq> 0 \<and> patch' \<noteq> ''{}'' \<and>
    deref (heap v) cur' = Some e' \<and>
    Patch c (Namespace (ObjectMeta e')) (Name (ObjectMeta e')) StrategicMergePatchType patch'
      (server v) = ((res', None), t')"
  from a PatchEndpointsObject_patch_path [where k = k and w = v and cur = cur' and mod' = mod''
      and curJson = curJson' and modJson = modJson' and patch = patch' and e = e' and c = c
      and res = res' and err = None and s' = t']
  obtain out v' where
    r: "PatchEndpointsObject c k cur' mod'' v = (Return (out, VerbPatched, None), v')"
    and d: "deref (heap v') out = res'" and sv: "server v' = t'"
    and cl: "calls v' = calls v @ [CallPatch (Namespace (ObjectMeta e')) (Name (ObjectMeta e'))
                                   StrategicMergePatchType patch']"
    by blast
  from d have "res' = deref (heap v) mod'' \<longrightarrow> deref (heap v') out = deref (heap v) mod''"
    by simp
  with r d sv cl
  show "\<exists>out v'.
           PatchEndpointsObject c k cur' mod'' v = (Return (out, VerbPatched, None), v') \<and>
           deref (heap v') out = res' \<and>
           server v' = t' \<and>
           calls v' = calls v @ [CallPatch (Namespace (ObjectMeta e')) (Name (ObjectMeta e'))
                                   StrategicMergePatchType patch'] \<and>
           (res' = deref (heap v) mod'' \<longrightarrow> deref (heap v') out = deref (heap v) mod'')"
    by blast
next
  assume b: "client_Get c (Namespace meta) (Name meta) w = ((cur, None), w1) \<and>
    DeepCopy cur (heap w1) = (copy, h1) \<and>
    transform copy h1 = (mod', h2) \<and>
    Marshal k (deref h2 cur) = (curJson, None) \<and>
    Marshal k (deref h2 mod') = (modJson, None) \<and>
    CreateTwoWayMergePatch k curJson modJson = (patch, None) \<and>
    length patch \<noteq> 0 \<and> patch \<noteq> ''{}'' \<and>
    deref h2 cur = Some e \<and>
    Patch c (Namespace (ObjectMeta e)) (Name (ObjectMeta e)) StrategicMergePatchType patch
      (server w1) = ((res, None), s')"
  let ?v = "w1\<lparr>heap := h2\<rparr>"
  from b have get: "client_Get c (Namespace meta) (Name meta) w = ((cur, None), w1)"
    and dc: "DeepCopy cur (heap w1) = (copy, h1)"
    and tr: "transform copy h1 = (mod', h2)" by auto
  from b have mc: "Marshal k (deref (heap ?v) cur) = (curJson, None)"
    and mm: "Marshal k (deref (heap ?v) mod') = (modJson, None)"
    and cp: "CreateTwoWayMergePatch k curJson modJson = (patch, None)"
    and ne: "length patch \<noteq> 0" "patch \<noteq> ''{}''"
    and pr: "deref (heap ?v) cur = Some e"
    and pa: "Patch c (Namespace (ObjectMeta e)) (Name (ObjectMeta e)) StrategicMergePatchType patch
      (server ?v) = ((res, None), s')" by auto
  from PatchEndpointsObject_patch_path [OF mc mm cp ne pr pa]
  obtain out w' where
    r: "PatchEndpointsObject c k cur mod' ?v = (Return (out, VerbPatched, None), w')"
    and d: "deref (heap w') out = res" and sv: "server w' = s'"
    and cl: "calls w' = calls ?v @ [CallPatch (Namespace (ObjectMeta e)) (Name (ObjectMeta e))
                                   StrategicMergePatchType patch]"
    by blast
  have pe: "PatchEndpoints c k cur transform w1 = (Return (out, VerbPatched, None), w')"
    using dc tr r by (simp add: PatchEndpoints_def)
  have ce: "CreateOrPatchEndpoints c k meta transform w = (Return (out, VerbPatched, None), w')"
    using get pe by (simp add: CreateOrPatchEndpoints_def)
  from client_Get_effect [OF get]
  have "calls w1 = calls w @ [CallGet (Namespace meta) (Name meta)]" by blast
  with cl have cl': "calls w' = calls w @ [CallGet (Namespace meta) (Name meta),
                                 CallPatch (Namespace (ObjectMeta e)) (Name (ObjectMeta e))
                                   StrategicMergePatchType patch]" by simp
  from d have "res = deref h2 mod' \<longrightarrow> deref (heap w') out = deref h2 mod'" by simp
  with pe ce d sv cl'
  show "\<exists>out w'.
           PatchEndpoints c k cur transform w1 = (Return (out, VerbPatched, None), w') \<and>
           CreateOrPatchEndpoints c k meta transform w = (Return (out, VerbPatched, None), w') \<and>
           deref (heap w') out = res \<and>
           server w' = s' \<and>
           calls w' = calls w @ [CallGet (Namespace meta) (Name meta),
                                 CallPatch (Namespace (ObjectMeta e)) (Name (ObjectMeta e))
                                   StrategicMergePatchType patch] \<and>
           (res = deref h2 mod' \<longrightarrow> deref (heap w') out = deref h2 mod')"
    by blast
qed

theorem changed_object_is_patched_witness:
  "(\<exists>out v'.
      PatchEndpointsObject fakeClient fakeCodec (Some 0) (Some 1) world2
        = (Return (out, VerbPatched, None), v') \<and>
      deref (heap v') out = Some obj1 \<and>
      calls v' = [CallPatch ''default'' ''ep'' StrategicMergePatchType ''b'']) \<and>
   (\<exists>out w'.
      CreateOrPatchEndpoints fakeClient fakeCodec meta0 (setSubsets ''b'')
          \<lparr>heap = [], server = [((''default'', ''ep''), obj0)], calls = []\<rparr>
        = (Return (out, VerbPatched, None), w') \<and>
      deref (heap w') out = Some obj1 \<and>
      server w' = [((''default'', ''ep''), obj1), ((''default'', ''ep''), obj0)] \<and>
      calls w' = [CallGet ''default'' ''ep'',
                  CallPatch ''default'' ''ep'' StrategicMergePatchType ''b''])"
proof -
  let ?w = "\<lparr>heap = [], server = [((''default'', ''ep''), obj0)], calls = []\<rparr>
              :: (unit, char, fakeServer) world"
  let ?w1 = "\<lparr>heap = [obj0], server = [((''default'', ''ep''), obj0)],
              calls = [CallGet ''default'' ''ep'']\<rparr> :: (unit, char, fakeServer) world"
  let ?s' = "[((''default'', ''ep''), obj1), ((''default'', ''ep''), obj0)]"
  have nm: "Namespace (ObjectMeta obj0) = ''default''" "Name (ObjectMeta obj0) = ''ep''"
    by (simp_all add: obj0_def meta0_def)
  have cw: "calls world2 = []" by (simp add: world2_def)
  have d1: "deref (heap world2) (Some 1) = Some obj1" by (simp add: deref_def world2_def)
  have d1': "deref [obj0, obj1] (Some 1) = Some obj1" by (simp add: deref_def)
  have a: "Marshal fakeCodec (deref (heap world2) (Some 0)) = (''a'', None) \<and>
           Marshal fakeCodec (deref (heap world2) (Some 1)) = (''b'', None) \<and>
           CreateTwoWayMergePatch fakeCodec ''a'' ''b'' = (''b'', None) \<and>
           length ''b'' \<noteq> 0 \<and> ''b'' \<noteq> ''{}'' \<and>
           deref (heap world2) (Some 0) = Some obj0 \<and>
           Patch fakeClient (Namespace (ObjectMeta obj0)) (Name (ObjectMeta obj0))
             StrategicMergePatchType ''b'' (server world2) = ((Some obj1, None), ?s')"
    by (simp add: fake_defs deref_def)
  have b: "client_Get fakeClient (Namespace meta0) (Name meta0) ?w = ((Some 0, None), ?w1) \<and>
           DeepCopy (Some 0) (heap ?w1) = (Some 1, [obj0, obj0]) \<and>
           setSubsets ''b'' (Some 1) [obj0, obj0] = (Some 1, [obj0, obj1]) \<and>
           Marshal fakeCodec (deref [obj0, obj1] (Some 0)) = (''a'', None) \<and>
           Marshal fakeCodec (deref [obj0, obj1] (Some 1)) = (''b'', None) \<and>
           CreateTwoWayMergePatch fakeCodec ''a'' ''b'' = (''b'', None) \<and>
           length ''b'' \<noteq> 0 \<and> ''b'' \<noteq> ''{}'' \<and>
           deref [obj0, obj1] (Some 0) = Some obj0 \<and>
           Patch fakeClient (Namespace (ObjectMeta obj0)) (Name (ObjectMeta obj0))
             StrategicMergePatchType ''b'' (server ?w1) = ((Some obj1, None), ?s')"
    by (simp add: fake_defs deref_def client_Get_def DeepCopy_def alloc_opt_def alloc_def)
  have A: "\<exists>out v'.
      PatchEndpointsObject fakeClient fakeCodec (Some 0) (Some 1) world2
        = (Return (out, VerbPatched, None), v') \<and>
      deref (heap v') out = Some obj1 \<and>
      calls v' = [CallPatch ''default'' ''ep'' StrategicMergePatchType ''b'']"
    using changed_object_is_patched
      [where c = fakeClient and k = fakeCodec and v = world2 and cur' = "Some 0" and mod'' = "Some 1"
         and curJson' = "''a''" and modJson' = "''b''" and patch' = "''b''" and e' = obj0
         and res' = "Some obj1" and t' = ?s',
       THEN conjunct1, THEN mp, OF a]
    by (auto simp: nm cw)
  have B: "\<exists>out w'.
      CreateOrPatchEndpoints fakeClient fakeCodec meta0 (setSubsets ''b'') ?w
        = (Return (out, VerbPatched, None), w') \<and>
      deref (heap w') out = Some obj1 \<and>
      server w' = ?s' \<and>
      calls w' = [CallGet ''default'' ''ep'',
                  CallPatch ''default'' ''ep'' StrategicMergePatchType ''b'']"
    using changed_object_is_patched
      [where c = fakeClient and k = fakeCodec and meta = meta0 and w = ?w and cur = "Some 0"
         and ?w1.0 = ?w1 and copy = "Some 1" and ?h1.0 = "[obj0, obj0]"
         and transform = "setSubsets ''b''" and mod' = "Some 1" and ?h2.0 = "[obj0, obj1]"
         and curJson = "''a''" and modJson = "''b''" and patch = "''b''" and e = obj0
         and res = "Some obj1" and s' = ?s',
       THEN conjunct2, THEN mp, OF b]
    by (auto simp: nm meta0_def)
  from A B show ?thesis by (rule conjI)
qed

theorem response_not_transformed_counterexample:
  "CreateOrPatchEndpoints
       (stubClient (Some obj0, None) (None, None) (Some obj0, None))
       fakeCodec meta0 (setSubsets ''b'') \<lparr>heap = [], server = 0, calls = []\<rparr>
     = (Return (Some 2, VerbPatched, None),
        \<lparr>heap = [obj0, obj1, obj0], server = 2,
         calls = [CallGet ''default'' ''ep'',
                  CallPatch ''default'' ''ep'' StrategicMergePatchType ''b'']\<rparr>) \<and>
   deref [obj0, obj1, obj0] (Some 1) = Some obj1 \<and>
   deref [obj0, obj1, obj0] (Some 2) = Some obj0 \<and>
   Subsets obj1 = ''b'' \<and> Subsets obj0 = ''a''"
  by (simp add: CreateOrPatchEndpoints_def PatchEndpoints_def PatchEndpointsObject_def
      client_Get_def client_Patch_def DeepCopy_def alloc_opt_def alloc_def deref_def
      stubClient_def fakeCodec_def setSubsets_def write_Subsets_def obj0_def obj1_def meta0_def)

text \<open>
  C5.  When serialising \<open>cur\<close> fails, or serialising \<open>mod'\<close> fails, or computing the
  two-way strategic merge patch fails, \<open>PatchEndpointsObject\<close> returns a \<^verbatim>\<open>nil\<close> object,
  the outcome \<open>VerbUnchanged\<close> and that very error, and leaves the world as it found it:
  no \<open>Patch\<close> request is made.
\<close>

theorem PatchEndpointsObject_marshal_or_diff_error:
  assumes "(\<exists>curJson. Marshal k (deref (heap w) cur) = (curJson, Some e)) \<or>
           (\<exists>curJson modJson.
              Marshal k (deref (heap w) cur) = (curJson, None) \<and>
              Marshal k (deref (heap w) mod') = (modJson, Some e)) \<or>
           (\<exists>curJson modJson patch.
              Marshal k (deref (heap w) cur) = (curJson, None) \<and>
              Marshal k (deref (heap w) mod') = (modJson, None) \<and>
              CreateTwoWayMergePatch k curJson modJson = (patch, Some e))"
  shows "PatchEndpointsObject c k cur mod' w = (Return (None, VerbUnchanged, Some e), w)"
  using assms by (auto simp: PatchEndpointsObject_def)

theorem PatchEndpointsObject_marshal_or_diff_error_witness:
  "PatchEndpointsObject fakeClient
       \<lparr>Marshal = (\<lambda>p. ([], Some (OtherError ''unsupported type''))),
        CreateTwoWayMergePatch = CreateTwoWayMergePatch fakeCodec\<rparr>
       (Some 0) (Some 1) world2
     = (Return (None, VerbUnchanged, Some (OtherError ''unsupported type'')), world2) \<and>
   PatchEndpointsObject fakeClient
       \<lparr>Marshal = (\<lambda>p. if p = Some obj1 then ([], Some (OtherError ''unsupported value''))
                         else Marshal fakeCodec p),
        CreateTwoWayMergePatch = CreateTwoWayMergePatch fakeCodec\<rparr>
       (Some 0) (Some 1) world2
     = (Return (None, VerbUnchanged, Some (OtherError ''unsupported value'')), world2) \<and>
   PatchEndpointsObject fakeClient
       \<lparr>Marshal = Marshal fakeCodec,
        CreateTwoWayMergePatch = (\<lambda>a b. ([], Some (OtherError ''bad precondition'')))\<rparr>
       (Some 0) (Some 1) world2
     = (Return (None, VerbUnchanged, Some (OtherError ''bad precondition'')), world2)"
proof -
  let ?k1 = "\<lparr>Marshal = (\<lambda>p. ([], Some (OtherError ''unsupported type''))),
        CreateTwoWayMergePatch = CreateTwoWayMergePatch fakeCodec\<rparr> :: (unit, char) Codec"
  let ?k2 = "\<lparr>Marshal = (\<lambda>p. if p = Some obj1 then ([], Some (OtherError ''unsupported value''))
                         else Marshal fakeCodec p),
        CreateTwoWayMergePatch = CreateTwoWayMergePatch fakeCodec\<rparr> :: (unit, char) Codec"
  let ?k3 = "\<lparr>Marshal = Marshal fakeCodec,
        CreateTwoWayMergePatch = (\<lambda>a b. ([], Some (OtherError ''bad precondition'')))\<rparr>
        :: (unit, char) Codec"
  have h1: "\<exists>curJson. Marshal ?k1 (deref (heap world2) (Some 0))
              = (curJson, Some (OtherError ''unsupported type''))"
    by simp
  have h2: "\<exists>curJson modJson.
              Marshal ?k2 (deref (heap world2) (Some 0)) = (curJson, None) \<and>
              Marshal ?k2 (deref (heap world2) (Some 1))
                = (modJson, Some (OtherError ''unsupported value''))"
    by (simp add: deref_def fake_defs)
  have h3: "\<exists>curJson modJson patch.
              Marshal ?k3 (deref (heap world2) (Some 0)) = (curJson, None) \<and>
              Marshal ?k3 (deref (heap world2) (Some 1)) = (modJson, None) \<and>
              CreateTwoWayMergePatch ?k3 curJson modJson
                = (patch, Some (OtherError ''bad precondition''))"
    by (simp add: deref_def fake_defs)
  show ?thesis
    using PatchEndpointsObject_marshal_or_diff_error [where c = fakeClient, OF disjI1, OF h1]
          PatchEndpointsObject_marshal_or_diff_error [where c = fakeClient, OF disjI2, OF disjI1, OF h2]
          PatchEndpointsObject_marshal_or_diff_error [where c = fakeClient, OF disjI2, OF disjI2, OF h3]
    by simp
qed


text \<open>
  C6.  As stated, for every transform, the claim does not hold: a Go closure can have
  captured the pointer to the original and write through it, whatever pointer it is
  handed (\<open>clobber\<close> above), and then the original is changed although the transform was
  applied to a copy.  The counterexample after the theorem runs this.

  What the code gives, for every transform: the pointer handed to the transform is that
  of a deep copy, a new object at an address that held nothing before, other than the
  address of the original, with the contents of the original.  So for every transform
  that writes only through the pointer it is handed (it may allocate objects of its
  own), the original holds the same contents after the transform, when
  \<open>PatchEndpointsObject\<close> is entered with it, and when \<open>PatchEndpoints\<close> returns.
\<close>

theorem PatchEndpoints_transform_gets_copy:
  assumes pr: "deref (heap w) cur = Some e"
      and dc: "DeepCopy cur (heap w) = (copy, h1)"
      and tr: "transform copy h1 = (mod', h2)"
      and fr: "wrote_only_through copy h1 h2"
  shows "copy \<noteq> cur \<and> deref (heap w) copy = None \<and> deref h1 copy = Some e \<and>
         deref h1 cur = Some e \<and> deref h2 cur = Some e \<and>
         PatchEndpoints c k cur transform w = PatchEndpointsObject c k cur mod' (w\<lparr>heap := h2\<rparr>) \<and>
         deref (heap (snd (PatchEndpoints c k cur transform w))) cur = Some e"
proof -
  from DeepCopy_present [OF pr dc]
  have copy: "copy = Some (length (heap w))" and h1: "h1 = heap w @ [e]" by simp_all
  from deref_valid [OF pr] obtain a where
    a: "cur = Some a" "a < length (heap w)" "heap w ! a = e" by blast
  have ne: "copy \<noteq> cur" using copy a by simp
  have fresh: "deref (heap w) copy = None" using copy by (simp add: deref_def)
  have d1: "deref h1 copy = Some e" using copy h1 by (simp add: deref_def)
  have d1c: "deref h1 cur = Some e" using pr h1 by (simp add: deref_append)
  have "a < length h1" using a h1 by simp
  with fr have "length h1 \<le> length h2" and "Some a = copy \<or> h2 ! a = h1 ! a"
    by (simp_all add: wrote_only_through_def list_all_iff)
  with ne a h1 have d2: "deref h2 cur = Some e"
    by (auto simp: deref_def nth_append)
  have eq: "PatchEndpoints c k cur transform w = PatchEndpointsObject c k cur mod' (w\<lparr>heap := h2\<rparr>)"
    using dc tr by (simp add: PatchEndpoints_def)
  obtain xs where "heap (snd (PatchEndpointsObject c k cur mod' (w\<lparr>heap := h2\<rparr>))) = h2 @ xs"
    using PatchEndpointsObject_heap [of c k cur mod' "w\<lparr>heap := h2\<rparr>"] by auto
  with d2 eq have "deref (heap (snd (PatchEndpoints c k cur transform w))) cur = Some e"
    by (simp add: deref_append)
  with ne fresh d1 d1c d2 eq show ?thesis by simp
qed

theorem PatchEndpoints_transform_gets_copy_witness:
  "wrote_only_through (Some 1) [obj0, obj0] [obj0, obj1] \<and>
   PatchEndpoints fakeClient fakeCodec (Some 0) (setSubsets ''b'') world1
     = PatchEndpointsObject fakeClient fakeCodec (Some 0) (Some 1) world2 \<and>
   deref (heap (snd (PatchEndpoints fakeClient fakeCodec (Some 0) (setSubsets ''b'') world1))) (Some 0)
     = Some obj0"
proof -
  have pr: "deref (heap world1) (Some 0) = Some obj0"
    by (simp add: deref_def world1_def)
  have dc: "DeepCopy (Some 0) (heap world1) = (Some 1, [obj0, obj0])"
    by (simp add: DeepCopy_def alloc_opt_def alloc_def deref_def world1_def)
  have tr: "setSubsets ''b'' (Some 1) [obj0, obj0] = (Some 1, [obj0, obj1])"
    by (simp add: setSubsets_def write_Subsets_def obj0_def obj1_def)
  have fr: "wrote_only_through (Some 1) [obj0, obj0] [obj0, obj1]"
    by (simp add: wrote_only_through_def upt_rec)
  have w: "world1\<lparr>heap := [obj0, obj1]\<rparr> = world2"
    by (simp add: world1_def world2_def)
  show ?thesis
    using fr PatchEndpoints_transform_gets_copy
      [where transform = "setSubsets ''b''" and c = fakeClient and k = fakeCodec, OF pr dc tr fr]
    unfolding w by blast
qed

theorem PatchEndpoints_original_mutated_counterexample:
  "deref (heap world1) (Some 0) = Some obj0 \<and>
   DeepCopy (Some 0) (heap world1) = (Some 1, [obj0, obj0]) \<and>
   clobber 0 ''b'' (Some 1) [obj0, obj0] = (Some 1, [obj1, obj0]) \<and>
   deref (heap (snd (PatchEndpoints fakeClient fakeCodec (Some 0) (clobber 0 ''b'') world1))) (Some 0)
     = Some obj1 \<and>
   obj1 \<noteq> obj0"
  by (simp add: PatchEndpoints_def PatchEndpointsObject_def DeepCopy_def alloc_opt_def alloc_def
      deref_def clobber_def write_Subsets_def client_Patch_def fakeClient_def fakeCodec_def
      world1_def obj0_def obj1_def meta0_def)

text \<open>
  C9.  The outcome names the branch that was attempted, whether or not it succeeded.
  When the object is absent and the \<open>Create\<close> request fails, \<open>CreateOrPatchEndpoints\<close>
  returns \<open>VerbCreated\<close> with that error; when the \<open>Patch\<close> request fails,
  \<open>PatchEndpointsObject\<close> returns \<open>VerbPatched\<close> with that error.  Neither returns
  \<open>VerbUnchanged\<close>.
\<close>

theorem verb_names_attempted_branch:
  "(client_Get c (Namespace meta) (Name meta) w = ((cur, err), w1) \<and>
    IsNotFound err \<and>
    transform (Some (length (heap w1)))
      (heap w1 @ [\<lparr>TypeMeta = \<lparr>Kind = ''Endpoints'', APIVersion = ''v1''\<rparr>,
                   ObjectMeta = meta, Subsets = []\<rparr>]) = (obj, h2) \<and>
    Create c (Namespace meta) (deref h2 obj) (server w1) = ((res, Some e), s2)
    \<longrightarrow> (\<exists>out w2. CreateOrPatchEndpoints c k meta transform w
                      = (Return (out, VerbCreated, Some e), w2)))
   \<and>
   (Marshal k (deref (heap v) cur') = (curJson, None) \<and>
    Marshal k (deref (heap v) mod') = (modJson, None) \<and>
    CreateTwoWayMergePatch k curJson modJson = (patch, None) \<and>
    length patch \<noteq> 0 \<and> patch \<noteq> ''{}'' \<and>
    deref (heap v) cur' = Some ep \<and>
    Patch c (Namespace (ObjectMeta ep)) (Name (ObjectMeta ep)) StrategicMergePatchType patch
      (server v) = ((res', Some e'), s')
    \<longrightarrow> (\<exists>out v'. PatchEndpointsObject c k cur' mod' v
                      = (Return (out, VerbPatched, Some e'), v')))"
proof (intro conjI impI)
  assume a: "client_Get c (Namespace meta) (Name meta) w = ((cur, err), w1) \<and>
    IsNotFound err \<and>
    transform (Some (length (heap w1)))
      (heap w1 @ [\<lparr>TypeMeta = \<lparr>Kind = ''Endpoints'', APIVersion = ''v1''\<rparr>,
                   ObjectMeta = meta, Subsets = []\<rparr>]) = (obj, h2) \<and>
    Create c (Namespace meta) (deref h2 obj) (server w1) = ((res, Some e), s2)"
  from a CreateOrPatchEndpoints_create_path [where transform = transform and k = k and c = c and w = w
      and meta = meta and cur = cur and err = err and ?w1.0 = w1 and obj = obj and ?h2.0 = h2
      and res = res and err' = "Some e" and ?s2.0 = s2]
  show "\<exists>out w2. CreateOrPatchEndpoints c k meta transform w = (Return (out, VerbCreated, Some e), w2)"
    by blast
next
  assume b: "Marshal k (deref (heap v) cur') = (curJson, None) \<and>
    Marshal k (deref (heap v) mod') = (modJson, None) \<and>
    CreateTwoWayMergePatch k curJson modJson = (patch, None) \<and>
    length patch \<noteq> 0 \<and> patch \<noteq> ''{}'' \<and>
    deref (heap v) cur' = Some ep \<and>
    Patch c (Namespace (ObjectMeta ep)) (Name (ObjectMeta ep)) StrategicMergePatchType patch
      (server v) = ((res', Some e'), s')"
  from b PatchEndpointsObject_patch_path [where k = k and w = v and cur = cur' and mod' = mod'
      and curJson = curJson and modJson = modJson and patch = patch and e = ep and c = c
      and res = res' and err = "Some e'" and s' = s']
  show "\<exists>out v'. PatchEndpointsObject c k cur' mod' v = (Return (out, VerbPatched, Some e'), v')"
    by blast
qed

theorem verb_names_attempted_branch_witness:
  "(\<exists>out w2.
      CreateOrPatchEndpoints
          (stubClient (None, Some (StatusError StatusReasonNotFound ''ep''))
             (None, Some (StatusError StatusReasonForbidden ''denied'')) (None, None))
          fakeCodec meta0 keep \<lparr>heap = [], server = 0, calls = []\<rparr>
        = (Return (out, VerbCreated, Some (StatusError StatusReasonForbidden ''denied'')), w2)) \<and>
   (\<exists>out v'.
      PatchEndpointsObject
          (stubClient (None, None) (None, None) (None, Some (StatusError StatusReasonConflict ''ep'')))
          fakeCodec (Some 0) (Some 1) \<lparr>heap = [obj0, obj1], server = 0, calls = []\<rparr>
        = (Return (out, VerbPatched, Some (StatusError StatusReasonConflict ''ep'')), v'))"
proof -
  let ?c = "stubClient (None, Some (StatusError StatusReasonNotFound ''ep''))
             (None, Some (StatusError StatusReasonForbidden ''denied'')) (None, None)"
  let ?c' = "stubClient (None, None) (None, None) (None, Some (StatusError StatusReasonConflict ''ep''))"
  let ?w = "\<lparr>heap = [], server = 0, calls = []\<rparr> :: (unit, char, nat) world"
  let ?w1 = "\<lparr>heap = [], server = 1, calls = [CallGet ''default'' ''ep'']\<rparr> :: (unit, char, nat) world"
  let ?v = "\<lparr>heap = [obj0, obj1], server = 0, calls = []\<rparr> :: (unit, char, nat) world"
  let ?e = "\<lparr>TypeMeta = \<lparr>Kind = ''Endpoints'', APIVersion = ''v1''\<rparr>,
             ObjectMeta = meta0, Subsets = []\<rparr> :: obj"
  have a: "client_Get ?c (Namespace meta0) (Name meta0) ?w
             = ((None, Some (StatusError StatusReasonNotFound ''ep'')), ?w1) \<and>
           IsNotFound (Some (StatusError StatusReasonNotFound ''ep'')) \<and>
           keep (Some (length (heap ?w1))) (heap ?w1 @ [?e]) = (Some 0, [?e]) \<and>
           Create ?c (Namespace meta0) (deref [?e] (Some 0)) (server ?w1)
             = ((None, Some (StatusError StatusReasonForbidden ''denied'')), 2)"
    by (simp add: stubClient_def client_Get_def alloc_opt_def meta0_def keep_def)
  have b: "Marshal fakeCodec (deref (heap ?v) (Some 0)) = (''a'', None) \<and>
           Marshal fakeCodec (deref (heap ?v) (Some 1)) = (''b'', None) \<and>
           CreateTwoWayMergePatch fakeCodec ''a'' ''b'' = (''b'', None) \<and>
           length ''b'' \<noteq> 0 \<and> ''b'' \<noteq> ''{}'' \<and>
           deref (heap ?v) (Some 0) = Some obj0 \<and>
           Patch ?c' (Namespace (ObjectMeta obj0)) (Name (ObjectMeta obj0)) StrategicMergePatchType ''b''
             (server ?v) = ((None, Some (StatusError StatusReasonConflict ''ep'')), 1)"
    by (simp add: stubClient_def fakeCodec_def deref_def obj0_def obj1_def)
  have A: "\<exists>out w2. CreateOrPatchEndpoints ?c fakeCodec meta0 keep ?w
             = (Return (out, VerbCreated, Some (StatusError StatusReasonForbidden ''denied'')), w2)"
    using verb_names_attempted_branch
      [where c = ?c and k = fakeCodec and meta = meta0 and transform = keep and w = ?w
         and cur = None and err = "Some (StatusError StatusReasonNotFound ''ep'')" and ?w1.0 = ?w1
         and obj = "Some 0" and ?h2.0 = "[?e]" and res = None
         and e = "StatusError StatusReasonForbidden ''denied''" and ?s2.0 = 2,
       THEN conjunct1, THEN mp, OF a] .
  have B: "\<exists>out v'. PatchEndpointsObject ?c' fakeCodec (Some 0) (Some 1) ?v
             = (Return (out, VerbPatched, Some (StatusError StatusReasonConflict ''ep'')), v')"
    using verb_names_attempted_branch
      [where c = ?c' and k = fakeCodec and v = ?v and cur' = "Some 0" and mod' = "Some 1"
         and curJson = "''a''" and modJson = "''b''" and patch = "''b''" and ep = obj0
         and res' = None and e' = "StatusError StatusReasonConflict ''ep''" and s' = 1,
       THEN conjunct2, THEN mp, OF b] .
  from A B show ?thesis by (rule conjI)
qed

text \<open>
  C10.  As stated, the claim does not hold in its last part for a \<open>cur\<close> that is
  \<^verbatim>\<open>nil\<close>: with a patch that is not empty, line 70 dereferences \<open>cur\<close> and the function
  panics before any request is made.  The counterexample after the theorem runs this.

  What the code gives: once both objects serialise and the patch is computed, the
  \<open>VerbUnchanged\<close> return of line 68 is taken exactly when the patch has no bytes or is
  the two bytes \<^verbatim>\<open>{}\<close>, for every \<open>cur\<close>; and every other patch leads to one \<open>Patch\<close>
  request carrying exactly these bytes when \<open>cur\<close> points to an object.
\<close>

theorem PatchEndpointsObject_emptiness_test:
  assumes mc: "Marshal k (deref (heap w) cur) = (curJson, None)"
      and mm: "Marshal k (deref (heap w) mod') = (modJson, None)"
      and cp: "CreateTwoWayMergePatch k curJson modJson = (patch, None)"
  shows "((PatchEndpointsObject c k cur mod' w = (Return (cur, VerbUnchanged, None), w))
            = (length patch = 0 \<or> patch = ''{}'')) \<and>
         (length patch \<noteq> 0 \<and> patch \<noteq> ''{}'' \<and> deref (heap w) cur = Some e
            \<longrightarrow> (\<exists>out err w'.
                   PatchEndpointsObject c k cur mod' w = (Return (out, VerbPatched, err), w') \<and>
                   calls w' = calls w @ [CallPatch (Namespace (ObjectMeta e)) (Name (ObjectMeta e))
                                           StrategicMergePatchType patch]))"
proof (intro conjI impI iffI)
  assume "length patch = 0 \<or> patch = ''{}''"
  with mc mm cp show "PatchEndpointsObject c k cur mod' w = (Return (cur, VerbUnchanged, None), w)"
    by (rule PatchEndpointsObject_empty_path)
next
  assume r: "PatchEndpointsObject c k cur mod' w = (Return (cur, VerbUnchanged, None), w)"
  show "length patch = 0 \<or> patch = ''{}''"
  proof (rule ccontr)
    assume n: "\<not> (length patch = 0 \<or> patch = ''{}'')"
    show False
    proof (cases "deref (heap w) cur")
      case None
      with mc mm cp n have "PatchEndpointsObject c k cur mod' w = (Panic, w)"
        by (simp add: PatchEndpointsObject_nil_cur_panics)
      with r show False by simp
    next
      case (Some e0)
      obtain res err s' where pa:
        "Patch c (Namespace (ObjectMeta e0)) (Name (ObjectMeta e0)) StrategicMergePatchType patch
           (server w) = ((res, err), s')"
        by (metis prod.exhaust)
      from n PatchEndpointsObject_patch_path [OF mc mm cp _ _ Some pa]
      obtain out w' where
        "PatchEndpointsObject c k cur mod' w = (Return (out, VerbPatched, err), w')"
        by blast
      with r show False by simp
    qed
  qed
next
  assume a: "length patch \<noteq> 0 \<and> patch \<noteq> ''{}'' \<and> deref (heap w) cur = Some e"
  obtain res err s' where pa:
    "Patch c (Namespace (ObjectMeta e)) (Name (ObjectMeta e)) StrategicMergePatchType patch (server w)
       = ((res, err), s')"
    by (metis prod.exhaust)
  from a PatchEndpointsObject_patch_path [OF mc mm cp _ _ _ pa]
  show "\<exists>out err w'.
          PatchEndpointsObject c k cur mod' w = (Return (out, VerbPatched, err), w') \<and>
          calls w' = calls w @ [CallPatch (Namespace (ObjectMeta e)) (Name (ObjectMeta e))
                                  StrategicMergePatchType patch]"
    by blast
qed

theorem PatchEndpointsObject_emptiness_test_witness:
  "PatchEndpointsObject fakeClient
       \<lparr>Marshal = Marshal fakeCodec, CreateTwoWayMergePatch = (\<lambda>a b. ([], None))\<rparr>
       (Some 0) (Some 1) world2
     = (Return (Some 0, VerbUnchanged, None), world2) \<and>
   PatchEndpointsObject fakeClient fakeCodec (Some 0) (Some 0) world2
     = (Return (Some 0, VerbUnchanged, None), world2) \<and>
   PatchEndpointsObject fakeClient fakeCodec (Some 0) (Some 1) world2
     \<noteq> (Return (Some 0, VerbUnchanged, None), world2) \<and>
   (\<exists>out err w'.
      PatchEndpointsObject fakeClient fakeCodec (Some 0) (Some 1) world2
        = (Return (out, VerbPatched, err), w') \<and>
      calls w' = [CallPatch ''default'' ''ep'' StrategicMergePatchType ''b''])"
proof -
  let ?k = "\<lparr>Marshal = Marshal fakeCodec, CreateTwoWayMergePatch = (\<lambda>a b. ([], None))\<rparr>
              :: (unit, char) Codec"
  have d0: "deref (heap world2) (Some 0) = Some obj0"
    by (simp add: deref_def world2_def)
  have m0: "Marshal fakeCodec (deref (heap world2) (Some 0)) = (''a'', None)"
    by (simp add: deref_def fake_defs)
  have m1: "Marshal fakeCodec (deref (heap world2) (Some 1)) = (''b'', None)"
    by (simp add: deref_def fake_defs)
  have m0': "Marshal ?k (deref (heap world2) (Some 0)) = (''a'', None)"
    and m1': "Marshal ?k (deref (heap world2) (Some 1)) = (''b'', None)"
    using m0 m1 by simp_all
  have p1: "CreateTwoWayMergePatch ?k ''a'' ''b'' = ([], None)" by simp
  have p2: "CreateTwoWayMergePatch fakeCodec ''a'' ''a'' = (''{}'', None)"
    by (simp add: fakeCodec_def)
  have p3: "CreateTwoWayMergePatch fakeCodec ''a'' ''b'' = (''b'', None)"
    by (simp add: fakeCodec_def)
  have nm: "Namespace (ObjectMeta obj0) = ''default''" "Name (ObjectMeta obj0) = ''ep''"
    by (simp_all add: obj0_def meta0_def)
  have cw: "calls world2 = []" by (simp add: world2_def)
  show ?thesis
    using PatchEndpointsObject_emptiness_test [where c = fakeClient and e = obj0, OF m0' m1' p1]
          PatchEndpointsObject_emptiness_test [where c = fakeClient and e = obj0, OF m0 m0 p2]
          PatchEndpointsObject_emptiness_test [where c = fakeClient and e = obj0, OF m0 m1 p3]
          d0
    by (simp add: nm cw)
qed

theorem nil_cur_panics_counterexample:
  "Marshal fakeCodec (deref (heap world2) None) = (''null'', None) \<and>
   Marshal fakeCodec (deref (heap world2) (Some 1)) = (''b'', None) \<and>
   CreateTwoWayMergePatch fakeCodec ''null'' ''b'' = (''b'', None) \<and>
   length ''b'' = 1 \<and>
   PatchEndpointsObject fakeClient fakeCodec None (Some 1) world2 = (Panic, world2) \<and>
   calls world2 = []"
  by (simp add: PatchEndpointsObject_def deref_def fakeCodec_def world2_def obj0_def obj1_def)

end
